theory Spec2Isabelle
  imports Complex_Main "HOL-Library.Sublist" "HOL-Library.Word"
begin

section \<open>The script compilation driver of \<^verbatim>\<open>src/lib/template/language/compile.ts\<close>\<close>

text \<open>
  The driver turns a script identifier, compilation data and a compilation environment into
  a compilation result. Its collaborators (the parser, the identifier resolver, the reducer
  and the compiler factory used for the P2SH transformations) live in other modules; they are
  taken here as a record of functions, so every theorem below holds for whatever those
  modules compute unless it names an assumption about them.

  Strings are lists of bytes (UTF-8), a \<^verbatim>\<open>Uint8Array\<close> is a list of 8-bit words, an object
  with optional properties is a record of \<open>option\<close> fields (\<open>None\<close> is an absent property),
  and the string tags of the source (\<^verbatim>\<open>'parse'\<close>, \<^verbatim>\<open>'p2sh'\<close>, \<^verbatim>\<open>'height'\<close>, ...) stay
  strings. The tables of the environment are read with \<^verbatim>\<open>table[key]\<close>, which also finds what
  the table inherits from its prototype; the locktime is a number of the language, which may
  be fractional, infinite or not a number. Both are modelled as such below.
\<close>

subsection \<open>JavaScript primitives\<close>

text \<open>\<^verbatim>\<open>Array.prototype.join\<close>: the elements separated by \<open>sep\<close>; the empty array gives
  the empty string.\<close>

fun join :: "string \<Rightarrow> string list \<Rightarrow> string" where
  "join sep [] = []"
| "join sep [x] = x"
| "join sep (x # y # ys) = x @ sep @ join sep (y # ys)"

text \<open>\<^verbatim>\<open>Array.prototype.slice(b, e)\<close>: a negative bound counts from the end of the array,
  and both bounds are clamped to the array.\<close>

definition sliceIndex :: "nat \<Rightarrow> int \<Rightarrow> nat" where
  "sliceIndex len i = (if i < 0 then nat (max (int len + i) 0) else min (nat i) len)"

definition slice :: "'a list \<Rightarrow> int \<Rightarrow> int \<Rightarrow> 'a list" where
  "slice xs b e =
     (let k = sliceIndex (length xs) b; final = sliceIndex (length xs) e
      in take (final - k) (drop k xs))"

text \<open>\<^verbatim>\<open>xs[i]\<close>: reading outside the array gives \<^verbatim>\<open>undefined\<close> (\<open>None\<close>), it does not
  raise.\<close>

definition arrayIndex :: "'a list \<Rightarrow> int \<Rightarrow> 'a option" where
  "arrayIndex xs i = (if 0 \<le> i \<and> i < int (length xs) then Some (xs ! nat i) else None)"

text \<open>A string-or-undefined value inside a template literal: \<^verbatim>\<open>undefined\<close> is rendered as
  the nine letters \<^verbatim>\<open>undefined\<close>.\<close>

definition interpolate :: "string option \<Rightarrow> string" where
  "interpolate v = (case v of None \<Rightarrow> ''undefined'' | Some s \<Rightarrow> s)"

text \<open>The decimal digits of a natural number and of an integer.\<close>

fun natToString :: "nat \<Rightarrow> string" where
  "natToString n =
     (if n < 10 then [''0123456789'' ! n]
      else natToString (n div 10) @ [''0123456789'' ! (n mod 10)])"

declare natToString.simps [simp del]

definition integerToString :: "int \<Rightarrow> string" where
  "integerToString i = (if i < 0 then ''-'' @ natToString (nat (- i)) else natToString (nat i))"

text \<open>
  A number of the language is a double: a finite value, one of the two infinities, or
  \<^verbatim>\<open>NaN\<close>. The finite values are taken from the rationals, of which the doubles are a part;
  the two zeros are both \<open>Finite 0\<close> (they compare alike and both print as \<^verbatim>\<open>0\<close>).
\<close>

datatype JsNumber = Finite rat | PositiveInfinity | NegativeInfinity | NaN

text \<open>\<^verbatim>\<open>n >= t\<close> and \<^verbatim>\<open>n < t\<close> for a number \<open>n\<close> and a finite constant \<open>t\<close>: every
  comparison with \<^verbatim>\<open>NaN\<close> is false.\<close>

definition numberAtLeast :: "JsNumber \<Rightarrow> rat \<Rightarrow> bool" where
  "numberAtLeast n t =
     (case n of Finite q \<Rightarrow> t \<le> q | PositiveInfinity \<Rightarrow> True
      | NegativeInfinity \<Rightarrow> False | NaN \<Rightarrow> False)"

definition numberBelow :: "JsNumber \<Rightarrow> rat \<Rightarrow> bool" where
  "numberBelow n t =
     (case n of Finite q \<Rightarrow> q < t | PositiveInfinity \<Rightarrow> False
      | NegativeInfinity \<Rightarrow> True | NaN \<Rightarrow> False)"

text \<open>The safe integers: the integers of magnitude below \<open>2\<^sup>5\<^sup>3\<close>.\<close>

definition isSafeInteger :: "rat \<Rightarrow> bool" where
  "isSafeInteger q = (q = of_int \<lfloor>q\<rfloor> \<and> \<bar>q\<bar> < 9007199254740992)"

text \<open>
  A value as the driver meets it when it reads a table or handles a script identifier:
  \<^verbatim>\<open>undefined\<close>, a string, or an object or function. An object is given by the text it
  converts to (\<^verbatim>\<open>function toString() { [native code] }\<close> for a built-in function), and two
  objects are told apart by that text.
\<close>

datatype JsValue = Undefined | Str string | Obj string

text \<open>The conversion of a value to a string, in a template literal and as a property key.\<close>

fun valueToString :: "JsValue \<Rightarrow> string" where
  "valueToString Undefined = ''undefined''"
| "valueToString (Str s) = s"
| "valueToString (Obj text) = text"

text \<open>The conversion of an array element by \<^verbatim>\<open>Array.prototype.join\<close>: \<^verbatim>\<open>undefined\<close> gives
  the empty string.\<close>

fun joinElement :: "JsValue \<Rightarrow> string" where
  "joinElement Undefined = []"
| "joinElement (Str s) = s"
| "joinElement (Obj text) = text"

text \<open>
  An object used as a dictionary is the function of its property reads: \<^verbatim>\<open>table[key]\<close> is
  the table's own entry for the key when it has one, else what the prototype chain of the
  table holds under that name, else \<^verbatim>\<open>undefined\<close>. The key is converted to a string first.
  \<^verbatim>\<open>table?.[key]\<close> is \<^verbatim>\<open>undefined\<close> when the table itself is absent.
\<close>

type_synonym Dictionary = "string \<Rightarrow> JsValue"

definition propertyRead :: "Dictionary \<Rightarrow> JsValue \<Rightarrow> JsValue" where
  "propertyRead table key = table (valueToString key)"

definition optionalRead :: "Dictionary option \<Rightarrow> JsValue \<Rightarrow> JsValue" where
  "optionalRead table key =
     (case table of None \<Rightarrow> Undefined | Some t \<Rightarrow> propertyRead t key)"

text \<open>
  The members every object literal inherits from \<^verbatim>\<open>Object.prototype\<close>, and the dictionary
  that an object literal with the given entries is.
\<close>

definition objectPrototype :: Dictionary where
  "objectPrototype name =
     (if name = ''__proto__'' then Obj ''[object Object]''
      else if name = ''constructor'' then Obj ''function Object() { [native code] }''
      else if name \<in> set [''toString'', ''toLocaleString'', ''valueOf'', ''hasOwnProperty'',
                           ''isPrototypeOf'', ''propertyIsEnumerable'', ''__defineGetter__'',
                           ''__defineSetter__'', ''__lookupGetter__'', ''__lookupSetter__'']
      then Obj (''function '' @ name @ ''() { [native code] }'')
      else Undefined)"

definition objectLiteral :: "(string \<times> string) list \<Rightarrow> Dictionary" where
  "objectLiteral entries name =
     (case map_of entries name of Some v \<Rightarrow> Str v | None \<Rightarrow> objectPrototype name)"

subsection \<open>Data model\<close>

type_synonym bytes = "8 word list"

record Range =
  startLineNumber :: nat
  startColumn :: nat
  endLineNumber :: nat
  endColumn :: nat

record CompilationError =
  error :: string
  errorRange :: Range

text \<open>The reducer's output: the bytecode, the optional list of errors, and its trace.\<close>

record 'x ScriptReduction =
  reductionBytecode :: bytes
  reductionErrors :: "CompilationError list option"
  reductionTrace :: 'x

text \<open>A compilation result is an object; which properties it has depends on the path that
  built it.\<close>

record ('p, 'r, 'x) CompilationResult =
  success :: bool
  bytecode :: "bytes option"
  errorType :: "string option"
  errors :: "CompilationError list option"
  parse :: "'p option"
  resolve :: "'r option"
  reduce :: "'x ScriptReduction option"
  transformed :: "string option"

record OperationData =
  locktime :: "JsNumber option"

record CompilationData =
  dataBytecode :: "(string \<rightharpoonup> bytes) option"
  operationData :: "OperationData option"

text \<open>The ancestry chain holds the identifiers as they were passed, which line 296 of the
  source does not convert to strings.\<close>

record ('v, 'cs) CompilationEnvironment =
  scripts :: Dictionary
  sourceScriptIds :: "JsValue list option"
  lockingScriptTypes :: "Dictionary option"
  unlockingScripts :: "Dictionary option"
  unlockingScriptTimeLockTypes :: "Dictionary option"
  vm :: "'v option"
  createState :: "'cs option"

text \<open>The parser returns either a tree or the expected tokens with the line and column of
  the failure.\<close>

datatype 'p ParseResult =
  ParseSuccess 'p
| ParseFailure "string list" nat nat

text \<open>The argument of the compiler factory, and the compiler it returns.\<close>

record Variable =
  variableType :: string

record 'v CompilerConfiguration =
  configScripts :: "string \<rightharpoonup> string"
  configVariables :: "string \<rightharpoonup> Variable"
  configVm :: "'v option"

record ('p, 'r, 'x) Compiler =
  generateBytecode :: "string \<Rightarrow> CompilationData \<Rightarrow> ('p, 'r, 'x) CompilationResult"

text \<open>
  The imported functions of the source file, and, last, the conversion of a number to a
  string by the language for the numbers that are not safe integers: it prints the shortest
  digits that read back as the same double, in exponent form from \<open>10\<^sup>2\<^sup>1\<close> on, and is not
  spelled out here.
\<close>

record ('p, 'rs, 'r, 'x, 'v, 'cs) Collaborators =
  parseScript :: "string \<Rightarrow> 'p ParseResult"
  createIdentifierResolver :: "CompilationData \<Rightarrow> ('v, 'cs) CompilationEnvironment \<Rightarrow> 'rs"
  resolveScriptSegment :: "'p \<Rightarrow> 'rs \<Rightarrow> 'r"
  getResolutionErrors :: "'r \<Rightarrow> CompilationError list"
  reduceScript :: "'r \<Rightarrow> 'v option \<Rightarrow> 'cs option \<Rightarrow> 'x ScriptReduction"
  createCompilerCommonSynchronous :: "'v CompilerConfiguration \<Rightarrow> ('p, 'r, 'x) Compiler"
  shortestDigits :: "JsNumber \<Rightarrow> string"

text \<open>A number inside a template literal.\<close>

definition numberToString ::
  "('p, 'rs, 'r, 'x, 'v, 'cs) Collaborators \<Rightarrow> JsNumber \<Rightarrow> string" where
  "numberToString c n =
     (case n of
        NaN \<Rightarrow> ''NaN''
      | PositiveInfinity \<Rightarrow> ''Infinity''
      | NegativeInfinity \<Rightarrow> ''-Infinity''
      | Finite q \<Rightarrow> if isSafeInteger q then integerToString \<lfloor>q\<rfloor> else shortestDigits c n)"

text \<open>
  What a call of this file comes to: a compilation result, or no result at all. The stage
  pipeline begins by handing the script to the parser, which is declared on strings. When
  the script read from the table is not a string (an inherited member of the table), what
  the parser does with it is the parser's own affair and no compilation result of this file
  comes back (the shipped parser raises an exception); that outcome is \<open>ScriptNotAString\<close>.
\<close>

datatype NonResult = ScriptNotAString JsValue

type_synonym ('p, 'r, 'x) Outcome = "NonResult + ('p, 'r, 'x) CompilationResult"

subsection \<open>\<^verbatim>\<open>describeExpectedInput\<close>\<close>

definition EOF :: string where
  "EOF = ''EOF''"

definition describeExpectedInput :: "string list \<Rightarrow> string" where
  "describeExpectedInput expectedArray =
     (let filtered = filter (\<lambda>value. value \<noteq> EOF) expectedArray;
          newArray = (if length filtered \<noteq> length expectedArray
                      then filtered @ [''the end of the script''] else filtered);
          withoutLastElement = slice newArray 0 (int (length newArray) - 1);
          lastElement = arrayIndex newArray (int (length newArray) - 1);
          arrayRequiresCommas = 3;
          arrayRequiresOr = 2
      in ''Encountered unexpected input while parsing script. Expected '' @
         (if length newArray \<ge> arrayRequiresCommas
          then join '', '' withoutLastElement @ ('', or '' @ interpolate lastElement)
          else if length newArray = arrayRequiresOr
          then join '' or '' newArray
          else interpolate lastElement) @ ''.'')"

subsection \<open>\<^verbatim>\<open>compileScriptContents\<close>\<close>

definition compileScriptContents ::
  "('p, 'rs, 'r, 'x, 'v, 'cs) Collaborators \<Rightarrow> CompilationData \<Rightarrow>
   ('v, 'cs) CompilationEnvironment \<Rightarrow> string \<Rightarrow> ('p, 'r, 'x) CompilationResult" where
  "compileScriptContents c data environment script =
     (case parseScript c script of
        ParseFailure expected line column \<Rightarrow>
          \<lparr> success = False, bytecode = None, errorType = Some ''parse'',
            errors = Some [\<lparr> error = describeExpectedInput expected,
                             errorRange = \<lparr> startLineNumber = line, startColumn = column,
                                            endLineNumber = line, endColumn = column \<rparr> \<rparr>],
            parse = None, resolve = None, reduce = None, transformed = None \<rparr>
      | ParseSuccess parsed \<Rightarrow>
          (let resolver = createIdentifierResolver c data environment;
               resolvedScript = resolveScriptSegment c parsed resolver;
               resolutionErrors = getResolutionErrors c resolvedScript
           in if length resolutionErrors \<noteq> 0
              then \<lparr> success = False, bytecode = None, errorType = Some ''resolve'',
                     errors = Some resolutionErrors,
                     parse = Some parsed, resolve = Some resolvedScript, reduce = None,
                     transformed = None \<rparr>
              else
                (let reduction = reduceScript c resolvedScript (vm environment)
                                   (createState environment)
                 in case reductionErrors reduction of
                      None \<Rightarrow>
                        \<lparr> success = True, bytecode = Some (reductionBytecode reduction),
                          errorType = None, errors = None,
                          parse = Some parsed, resolve = Some resolvedScript,
                          reduce = Some reduction, transformed = None \<rparr>
                    | Some reductionErrs \<Rightarrow>
                        \<lparr> success = False, bytecode = None, errorType = Some ''reduce'',
                          errors = Some reductionErrs,
                          parse = Some parsed, resolve = Some resolvedScript,
                          reduce = Some reduction, transformed = None \<rparr>)))"

subsection \<open>\<^verbatim>\<open>compileScriptRaw\<close>\<close>

definition emptyRange :: Range where
  "emptyRange = \<lparr> startLineNumber = 0, startColumn = 0, endLineNumber = 0, endColumn = 0 \<rparr>"

text \<open>The separator of the ancestry chain in the circular-dependency message: a space, the
  rightwards arrow U+2192 (three bytes in UTF-8) and a space.\<close>

definition arrowSeparator :: string where
  "arrowSeparator = [CHR '' '', CHR 0xE2, CHR 0x86, CHR 0x92, CHR '' '']"

text \<open>The call of \<open>compileScriptContents\<close> at line 160, with whatever line 127 read from the
  table.\<close>

definition callCompileScriptContents ::
  "('p, 'rs, 'r, 'x, 'v, 'cs) Collaborators \<Rightarrow> CompilationData \<Rightarrow>
   ('v, 'cs) CompilationEnvironment \<Rightarrow> JsValue \<Rightarrow> ('p, 'r, 'x) Outcome" where
  "callCompileScriptContents c data environment script =
     (case script of
        Str text \<Rightarrow> Inr (compileScriptContents c data environment text)
      | Undefined \<Rightarrow> Inl (ScriptNotAString script)
      | Obj member \<Rightarrow> Inl (ScriptNotAString script))"

text \<open>The identifier is typed as a string, but line 296 passes on what it read from a table,
  so it is a value here.\<close>

definition compileScriptRaw ::
  "('p, 'rs, 'r, 'x, 'v, 'cs) Collaborators \<Rightarrow> CompilationData \<Rightarrow>
   ('v, 'cs) CompilationEnvironment \<Rightarrow> JsValue \<Rightarrow> ('p, 'r, 'x) Outcome" where
  "compileScriptRaw c data environment scriptId =
     (let script = propertyRead (scripts environment) scriptId
      in if script = Undefined
         then Inr \<lparr> success = False, bytecode = None, errorType = Some ''parse'',
                    errors = Some [\<lparr> error = ''No script with an ID of \"'' @
                                       valueToString scriptId @
                                       ''\" was provided in the compilation environment.'',
                                     errorRange = emptyRange \<rparr>],
                    parse = None, resolve = None, reduce = None, transformed = None \<rparr>
         else
           (case sourceScriptIds environment of
              None \<Rightarrow>
                callCompileScriptContents c data
                  (environment \<lparr> sourceScriptIds := Some [scriptId] \<rparr>) script
            | Some ids \<Rightarrow>
                if scriptId \<in> set ids
                then Inr \<lparr> success = False, bytecode = None, errorType = Some ''parse'',
                           errors = Some [\<lparr> error =
                               ''A circular dependency was encountered: script \"'' @
                               valueToString scriptId @
                               ''\" relies on itself to be generated. (Source scripts: '' @
                               join arrowSeparator (map joinElement ids) @ '')'',
                             errorRange = emptyRange \<rparr>],
                           parse = None, resolve = None, reduce = None, transformed = None \<rparr>
                else callCompileScriptContents c data
                       (environment \<lparr> sourceScriptIds := Some (ids @ [scriptId]) \<rparr>) script))"

subsection \<open>The P2SH sub-compilations\<close>

definition compileScriptP2shLocking ::
  "('p, 'rs, 'r, 'x, 'v, 'cs) Collaborators \<Rightarrow> bytes \<Rightarrow> 'v option \<Rightarrow>
   ('p, 'r, 'x) CompilationResult" where
  "compileScriptP2shLocking c lockingBytecode machine =
     (let compiler = createCompilerCommonSynchronous c
            \<lparr> configScripts =
                [''p2shLocking'' \<mapsto> ''OP_HASH160 <$(<lockingBytecode> OP_HASH160)> OP_EQUAL''],
              configVariables = [''lockingBytecode'' \<mapsto> \<lparr> variableType = ''AddressData'' \<rparr>],
              configVm = machine \<rparr>
      in generateBytecode compiler ''p2shLocking''
           \<lparr> dataBytecode = Some [''lockingBytecode'' \<mapsto> lockingBytecode],
             operationData = None \<rparr>)"

definition compileScriptP2shUnlocking ::
  "('p, 'rs, 'r, 'x, 'v, 'cs) Collaborators \<Rightarrow> bytes \<Rightarrow> bytes \<Rightarrow>
   ('p, 'r, 'x) CompilationResult" where
  "compileScriptP2shUnlocking c lockingBytecode unlockingBytecode =
     (let compiler = createCompilerCommonSynchronous c
            \<lparr> configScripts = [''p2shUnlocking'' \<mapsto> ''unlockingBytecode <lockingBytecode>''],
              configVariables = [''lockingBytecode'' \<mapsto> \<lparr> variableType = ''AddressData'' \<rparr>,
                                 ''unlockingBytecode'' \<mapsto> \<lparr> variableType = ''AddressData'' \<rparr>],
              configVm = None \<rparr>
      in generateBytecode compiler ''p2shUnlocking''
           \<lparr> dataBytecode = Some [''lockingBytecode'' \<mapsto> lockingBytecode,
                                   ''unlockingBytecode'' \<mapsto> unlockingBytecode],
             operationData = None \<rparr>)"

subsection \<open>\<^verbatim>\<open>compileScript\<close>\<close>

text \<open>Lines 254 to 315 of the source: the raw compilation and the P2SH transformations.
  After \<^verbatim>\<open>rawResult.success\<close> has been tested the source reads \<^verbatim>\<open>rawResult.bytecode\<close> as a
  byte array (\<open>the\<close> below); lemma \<open>compileScriptRaw_success_bytecode\<close> shows the property is
  there whenever the test passes. A raw compilation that gives no result ends the call.\<close>

definition compileScriptTransform ::
  "('p, 'rs, 'r, 'x, 'v, 'cs) Collaborators \<Rightarrow> string \<Rightarrow> CompilationData \<Rightarrow>
   ('v, 'cs) CompilationEnvironment \<Rightarrow> ('p, 'r, 'x) Outcome" where
  "compileScriptTransform c scriptId data environment =
     (case compileScriptRaw c data environment (Str scriptId) of
        Inl nonResult \<Rightarrow> Inl nonResult
      | Inr rawResult \<Rightarrow>
         if \<not> success rawResult then Inr rawResult
         else
           (let unlocks = optionalRead (unlockingScripts environment) (Str scriptId);
                unlockingScriptType =
                  (if unlocks = Undefined then Undefined
                   else optionalRead (lockingScriptTypes environment) unlocks);
                isP2shUnlockingScript = (unlockingScriptType = Str ''p2sh'');
                lockingScriptType =
                  optionalRead (lockingScriptTypes environment) (Str scriptId);
                isP2shLockingScript = (lockingScriptType = Str ''p2sh'')
            in if isP2shLockingScript
               then
                 (let transformedResult =
                        compileScriptP2shLocking c (the (bytecode rawResult)) (vm environment)
                  in if \<not> success transformedResult then Inr transformedResult
                     else Inr (rawResult \<lparr> bytecode := bytecode transformedResult,
                                           transformed := Some ''p2sh-locking'' \<rparr>))
               else if isP2shUnlockingScript
               then
                 (case compileScriptRaw c data environment unlocks of
                    Inl nonResult \<Rightarrow> Inl nonResult
                  | Inr lockingBytecodeResult \<Rightarrow>
                     if \<not> success lockingBytecodeResult then Inr lockingBytecodeResult
                     else
                       (let transformedResult =
                              compileScriptP2shUnlocking c
                                (the (bytecode lockingBytecodeResult))
                                (the (bytecode rawResult))
                        in if \<not> success transformedResult then Inr lockingBytecodeResult
                           else Inr (rawResult \<lparr> bytecode := bytecode transformedResult,
                                                 transformed := Some ''p2sh-unlocking'' \<rparr>)))
               else Inr rawResult))"

text \<open>\<^verbatim>\<open>data.operationData?.locktime\<close>: absent when either the operation data or its
  locktime is.\<close>

definition suppliedLocktime :: "CompilationData \<Rightarrow> JsNumber option" where
  "suppliedLocktime data = (case operationData data of None \<Rightarrow> None | Some od \<Rightarrow> locktime od)"

text \<open>Lines 220 to 252 of the source, the locktime type check, followed by the rest.\<close>

definition compileScript ::
  "('p, 'rs, 'r, 'x, 'v, 'cs) Collaborators \<Rightarrow> string \<Rightarrow> CompilationData \<Rightarrow>
   ('v, 'cs) CompilationEnvironment \<Rightarrow> ('p, 'r, 'x) Outcome" where
  "compileScript c scriptId data environment =
     (let lockTimeTypeBecomesTimestamp = 500000000
      in case suppliedLocktime data of
           None \<Rightarrow> compileScriptTransform c scriptId data environment
         | Some locktimeValue \<Rightarrow>
             if optionalRead (unlockingScriptTimeLockTypes environment) (Str scriptId)
                  = Str ''height''
                \<and> numberAtLeast locktimeValue lockTimeTypeBecomesTimestamp
             then Inr \<lparr> success = False, bytecode = None, errorType = Some ''parse'',
                    errors = Some [\<lparr> error = ''The script \"'' @ scriptId @
                        ''\" requires a height-based locktime (less than 500,000,000), but this transaction uses a timestamp-based locktime (\"'' @
                        numberToString c locktimeValue @ ''\").'',
                      errorRange = emptyRange \<rparr>],
                    parse = None, resolve = None, reduce = None, transformed = None \<rparr>
             else if optionalRead (unlockingScriptTimeLockTypes environment) (Str scriptId)
                       = Str ''timestamp''
                     \<and> numberBelow locktimeValue lockTimeTypeBecomesTimestamp
             then Inr \<lparr> success = False, bytecode = None, errorType = Some ''parse'',
                    errors = Some [\<lparr> error = ''The script \"'' @ scriptId @
                        ''\" requires a timestamp-based locktime (greater than or equal to 500,000,000), but this transaction uses a height-based locktime (\"'' @
                        numberToString c locktimeValue @ ''\").'',
                      errorRange = emptyRange \<rparr>],
                    parse = None, resolve = None, reduce = None, transformed = None \<rparr>
             else compileScriptTransform c scriptId data environment)"

subsection \<open>A concrete set of collaborators\<close>

text \<open>A small parser, resolver, reducer and compiler factory on which the driver can be run:
  the parser rejects the empty script, the resolver rejects the script \<^verbatim>\<open>unknown\<close>, the
  reducer rejects the script \<^verbatim>\<open><invalid>\<close> and otherwise emits the bytes of the script
  text, and the compilers made by the factory need a virtual machine. The driver is run below
  with safe integers for locktimes only, so the conversion of the other numbers is never
  consulted and answers with one fixed text.\<close>

definition demoError :: "string \<Rightarrow> CompilationError" where
  "demoError message =
     \<lparr> error = message,
       errorRange = \<lparr> startLineNumber = 1, startColumn = 1, endLineNumber = 1, endColumn = 2 \<rparr> \<rparr>"

definition demoGenerateBytecode ::
  "unit CompilerConfiguration \<Rightarrow> string \<Rightarrow> CompilationData \<Rightarrow>
   (string, string, unit) CompilationResult" where
  "demoGenerateBytecode config scriptId data =
     (case configVm config of
        None \<Rightarrow>
          \<lparr> success = False, bytecode = None, errorType = Some ''reduce'',
            errors = Some [demoError ''A virtual machine is required.''],
            parse = None, resolve = None, reduce = None, transformed = None \<rparr>
      | Some machine \<Rightarrow>
          \<lparr> success = True,
            bytecode = Some (case dataBytecode data of
                               None \<Rightarrow> []
                             | Some values \<Rightarrow>
                                 (case values ''lockingBytecode'' of
                                    None \<Rightarrow> [] | Some b \<Rightarrow> [0xA9] @ b @ [0x87])),
            errorType = None, errors = None,
            parse = None, resolve = None, reduce = None, transformed = None \<rparr>)"

definition demoCollaborators :: "(string, unit, string, unit, unit, unit) Collaborators" where
  "demoCollaborators =
     \<lparr> parseScript = (\<lambda>script. if script = [] then ParseFailure [''EOF'', ''an opcode''] 1 1
                                else ParseSuccess script),
       createIdentifierResolver = (\<lambda>data environment. ()),
       resolveScriptSegment = (\<lambda>parsed resolver. parsed),
       getResolutionErrors = (\<lambda>resolved. if resolved = ''unknown''
                                then [demoError ''Unknown identifier.''] else []),
       reduceScript = (\<lambda>resolved machine state.
                         if resolved = ''<invalid>''
                         then \<lparr> reductionBytecode = [],
                                reductionErrors = Some [demoError ''Invalid push.''],
                                reductionTrace = () \<rparr>
                         else \<lparr> reductionBytecode = map of_char resolved,
                                reductionErrors = None, reductionTrace = () \<rparr>),
       createCompilerCommonSynchronous =
         (\<lambda>config. \<lparr> generateBytecode = demoGenerateBytecode config \<rparr>),
       shortestDigits = (\<lambda>n. ''(not a safe integer)'') \<rparr>"

text \<open>An environment of object literals, with a P2SH locking script \<^verbatim>\<open>lock\<close>, its unlocking
  script \<^verbatim>\<open>unlock\<close>, which requires a height-based locktime, and a script \<^verbatim>\<open>both\<close> that is
  classified both as a P2SH locking script and as an unlocking script of \<^verbatim>\<open>lock\<close>, and
  requires a timestamp-based locktime.\<close>

definition demoEnvironment :: "(unit, unit) CompilationEnvironment" where
  "demoEnvironment =
     \<lparr> scripts = objectLiteral [(''lock'', ''OP_1''), (''unlock'', ''OP_2''), (''both'', ''OP_3'')],
       sourceScriptIds = None,
       lockingScriptTypes = Some (objectLiteral [(''lock'', ''p2sh''), (''both'', ''p2sh'')]),
       unlockingScripts = Some (objectLiteral [(''unlock'', ''lock''), (''both'', ''lock'')]),
       unlockingScriptTimeLockTypes =
         Some (objectLiteral [(''unlock'', ''height''), (''both'', ''timestamp'')]),
       vm = Some (),
       createState = Some () \<rparr>"

definition demoData :: CompilationData where
  "demoData = \<lparr> dataBytecode = None, operationData = None \<rparr>"

definition demoDataWithLocktime :: "JsNumber \<Rightarrow> CompilationData" where
  "demoDataWithLocktime n =
     \<lparr> dataBytecode = None, operationData = Some \<lparr> locktime = Some n \<rparr> \<rparr>"



subsection \<open>Notions used to state the properties\<close>

text \<open>The locktime type check lets a call through: no locktime is supplied, or the supplied
  value is on the side of the threshold that the script's declared type asks for, or the
  script declares no type.\<close>

definition locktimeTypeAccepted ::
  "string \<Rightarrow> CompilationData \<Rightarrow> ('v, 'cs) CompilationEnvironment \<Rightarrow> bool" where
  "locktimeTypeAccepted scriptId data environment =
     (case suppliedLocktime data of
        None \<Rightarrow> True
      | Some suppliedValue \<Rightarrow>
          \<not> (optionalRead (unlockingScriptTimeLockTypes environment) (Str scriptId)
               = Str ''height''
             \<and> numberAtLeast suppliedValue 500000000)
          \<and> \<not> (optionalRead (unlockingScriptTimeLockTypes environment) (Str scriptId)
                 = Str ''timestamp''
               \<and> numberBelow suppliedValue 500000000))"

text \<open>The shape invariant of a compilation result: a success has a bytecode property; a
  failure has none and has a non-empty list of errors.\<close>

definition resultInvariant :: "('p, 'r, 'x) CompilationResult \<Rightarrow> bool" where
  "resultInvariant result =
     (if success result then bytecode result \<noteq> None
      else bytecode result = None \<and> errors result \<noteq> None \<and> errors result \<noteq> Some [])"

text \<open>The formatting rules of the specification for the list of expected inputs: the
  end-of-input sentinel, when present, is removed and the phrase for it is put at the end;
  one item stands alone, two are joined by \<^verbatim>\<open> or \<close>, three or more are comma-joined with
  \<^verbatim>\<open>, or \<close> before the last.\<close>

definition expectedItems_spec :: "string list \<Rightarrow> string list" where
  "expectedItems_spec expected =
     (if EOF \<in> set expected
      then filter (\<lambda>v. v \<noteq> EOF) expected @ [''the end of the script'']
      else expected)"

fun joinExpected_spec :: "string list \<Rightarrow> string" where
  "joinExpected_spec [a] = a"
| "joinExpected_spec [a, b] = a @ '' or '' @ b"
| "joinExpected_spec (a # b # c # rest) =
     join '', '' (butlast (a # b # c # rest)) @ '', or '' @ last (a # b # c # rest)"

section \<open>Properties of the diagnostics formatter\<close>

lemma filter_length_neq: "(length (filter P xs) \<noteq> length xs) = (\<exists>x\<in>set xs. \<not> P x)"
  by (metis filter_id_conv length_filter_less less_irrefl_nat)

lemma newArray_spec:
  "(if length (filter (\<lambda>v. v \<noteq> EOF) xs) \<noteq> length xs
    then filter (\<lambda>v. v \<noteq> EOF) xs @ [''the end of the script'']
    else filter (\<lambda>v. v \<noteq> EOF) xs)
   = expectedItems_spec xs"
  by (auto simp: expectedItems_spec_def filter_length_neq filter_id_conv)

lemma slice_butlast: "slice xs 0 (int (length xs) - 1) = butlast xs"
  by (cases "xs = []")
    (auto simp: slice_def sliceIndex_def butlast_conv_take Let_def nat_diff_distrib')

lemma arrayIndex_last: "xs \<noteq> [] \<Longrightarrow> arrayIndex xs (int (length xs) - 1) = Some (last xs)"
  by (simp add: arrayIndex_def last_conv_nth nat_diff_distrib')

lemma render_spec:
  "items \<noteq> [] \<Longrightarrow>
   (if length items \<ge> 3
    then join '', '' (butlast items) @ ('', or '' @ interpolate (Some (last items)))
    else if length items = 2 then join '' or '' items
    else interpolate (Some (last items)))
   = joinExpected_spec items"
  by (cases items rule: joinExpected_spec.cases) (simp_all add: interpolate_def)

lemma expectedItems_nonempty: "xs \<noteq> [] \<Longrightarrow> expectedItems_spec xs \<noteq> []"
  by (auto simp: expectedItems_spec_def)

text \<open>
  C7. For a non-empty list of expected inputs, \<open>describeExpectedInput\<close> returns the sentence
  \<^verbatim>\<open>Encountered unexpected input while parsing script. Expected {list}.\<close> where the list is
  formed by the rules of the specification: the sentinel \<^verbatim>\<open>EOF\<close> is removed and
  \<^verbatim>\<open>the end of the script\<close> appended when it was present; one item stands alone, two are
  joined by \<^verbatim>\<open> or \<close>, three or more are comma-joined with \<^verbatim>\<open>, or \<close> before the last. For every
  list, the output ends in a period.
\<close>

theorem describeExpectedInput_rules:
  "(expected \<noteq> [] \<longrightarrow>
      describeExpectedInput expected =
        ''Encountered unexpected input while parsing script. Expected '' @
        joinExpected_spec (expectedItems_spec expected) @ ''.'')
   \<and> last (describeExpectedInput expected) = CHR ''.''"
proof
  show "expected \<noteq> [] \<longrightarrow> describeExpectedInput expected =
        ''Encountered unexpected input while parsing script. Expected '' @
        joinExpected_spec (expectedItems_spec expected) @ ''.''"
  proof
    assume ne: "expected \<noteq> []"
    have items: "expectedItems_spec expected \<noteq> []"
      using ne by (rule expectedItems_nonempty)
    show "describeExpectedInput expected =
        ''Encountered unexpected input while parsing script. Expected '' @
        joinExpected_spec (expectedItems_spec expected) @ ''.''"
      unfolding describeExpectedInput_def Let_def newArray_spec slice_butlast
        arrayIndex_last [OF items]
      using render_spec [OF items] by (simp only: append_assoc numeral_2_eq_2 [symmetric])
  qed
  show "last (describeExpectedInput expected) = CHR ''.''"
    by (simp add: describeExpectedInput_def Let_def)
qed

theorem describeExpectedInput_rules_witness:
  "[''an opcode'', ''EOF'', ''a push''] \<noteq> []
   \<and> describeExpectedInput [''an opcode'', ''EOF'', ''a push''] =
       ''Encountered unexpected input while parsing script. Expected an opcode, a push, or the end of the script.''
   \<and> describeExpectedInput [''an opcode'', ''a push''] =
       ''Encountered unexpected input while parsing script. Expected an opcode or a push.''
   \<and> describeExpectedInput [''EOF''] =
       ''Encountered unexpected input while parsing script. Expected the end of the script.''
   \<and> last (describeExpectedInput [''EOF'']) = CHR ''.''"
  using describeExpectedInput_rules [of "[''an opcode'', ''EOF'', ''a push'']"]
    describeExpectedInput_rules [of "[''an opcode'', ''a push'']"]
    describeExpectedInput_rules [of "[''EOF'']"]
  by (simp add: expectedItems_spec_def EOF_def)

text \<open>
  C8. \<open>describeExpectedInput\<close> is total: the reads of the last element and of the slice are
  the out-of-range-safe array operations of the language, so every list, the empty one
  included, gives a sentence that starts with the fixed prefix and ends in a period. On the
  empty list the absent last element is rendered as \<^verbatim>\<open>undefined\<close>.
\<close>

theorem describeExpectedInput_total:
  "(\<exists>body. describeExpectedInput expected =
       ''Encountered unexpected input while parsing script. Expected '' @ body @ ''.'')
   \<and> describeExpectedInput [] =
       ''Encountered unexpected input while parsing script. Expected undefined.''"
  by (simp add: describeExpectedInput_def Let_def arrayIndex_def interpolate_def
      slice_def sliceIndex_def)

section \<open>Properties of the stage pipeline\<close>

lemma compileScriptContents_success_iff:
  "success (compileScriptContents c data environment script) =
   (bytecode (compileScriptContents c data environment script) \<noteq> None)"
  by (simp add: compileScriptContents_def Let_def split: ParseResult.split option.split)

lemma callCompileScriptContents_success_iff:
  "callCompileScriptContents c data environment script = Inr result \<Longrightarrow>
   success result = (bytecode result \<noteq> None)"
  by (auto simp: callCompileScriptContents_def compileScriptContents_success_iff
      split: JsValue.splits)

lemma compileScriptRaw_success_iff:
  "compileScriptRaw c data environment scriptId = Inr result \<Longrightarrow>
   success result = (bytecode result \<noteq> None)"
  by (auto simp: compileScriptRaw_def Let_def callCompileScriptContents_success_iff
      split: option.splits if_splits)

lemma compileScriptRaw_success_bytecode:
  "compileScriptRaw c data environment scriptId = Inr result \<Longrightarrow> success result \<Longrightarrow>
   \<exists>b. bytecode result = Some b"
  by (simp add: compileScriptRaw_success_iff)

lemma compileScript_accepted:
  "locktimeTypeAccepted scriptId data environment \<Longrightarrow>
   compileScript c scriptId data environment = compileScriptTransform c scriptId data environment"
  by (auto simp: locktimeTypeAccepted_def compileScript_def Let_def split: option.splits)

text \<open>
  C6. When the parser returns a tree: if the resolver's error list for the resolved script is
  not empty, the result is a \<^verbatim>\<open>resolve\<close> failure with exactly that list, the parse and
  resolve artifacts and no reduce artifact; if it is empty and the reduction has an error
  list, the result is a \<^verbatim>\<open>reduce\<close> failure with that list, all three artifacts and no
  bytecode; if the reduction has no error list, the result is a success with the reduction's
  bytecode and all three artifacts.
\<close>

theorem compileScriptContents_stages:
  assumes "parseScript c script = ParseSuccess parsed"
    and "resolved = resolveScriptSegment c parsed (createIdentifierResolver c data environment)"
    and "reduction = reduceScript c resolved (vm environment) (createState environment)"
  shows "(getResolutionErrors c resolved \<noteq> [] \<longrightarrow>
            compileScriptContents c data environment script =
              \<lparr> success = False, bytecode = None, errorType = Some ''resolve'',
                errors = Some (getResolutionErrors c resolved),
                parse = Some parsed, resolve = Some resolved, reduce = None,
                transformed = None \<rparr>)
       \<and> (getResolutionErrors c resolved = [] \<longrightarrow>
            (\<forall>reductionErrs. reductionErrors reduction = Some reductionErrs \<longrightarrow>
               compileScriptContents c data environment script =
                 \<lparr> success = False, bytecode = None, errorType = Some ''reduce'',
                   errors = Some reductionErrs,
                   parse = Some parsed, resolve = Some resolved, reduce = Some reduction,
                   transformed = None \<rparr>)
          \<and> (reductionErrors reduction = None \<longrightarrow>
               compileScriptContents c data environment script =
                 \<lparr> success = True, bytecode = Some (reductionBytecode reduction),
                   errorType = None, errors = None,
                   parse = Some parsed, resolve = Some resolved, reduce = Some reduction,
                   transformed = None \<rparr>))"
  using assms by (simp add: compileScriptContents_def Let_def)

theorem compileScriptContents_stages_witness:
  "compileScriptContents demoCollaborators demoData demoEnvironment ''unknown'' =
     \<lparr> success = False, bytecode = None, errorType = Some ''resolve'',
       errors = Some [demoError ''Unknown identifier.''],
       parse = Some ''unknown'', resolve = Some ''unknown'', reduce = None,
       transformed = None \<rparr>
   \<and> compileScriptContents demoCollaborators demoData demoEnvironment ''<invalid>'' =
     \<lparr> success = False, bytecode = None, errorType = Some ''reduce'',
       errors = Some [demoError ''Invalid push.''],
       parse = Some ''<invalid>'', resolve = Some ''<invalid>'',
       reduce = Some \<lparr> reductionBytecode = [], reductionErrors = Some [demoError ''Invalid push.''],
                       reductionTrace = () \<rparr>,
       transformed = None \<rparr>
   \<and> compileScriptContents demoCollaborators demoData demoEnvironment ''OP_1'' =
     \<lparr> success = True, bytecode = Some [0x4F, 0x50, 0x5F, 0x31],
       errorType = None, errors = None,
       parse = Some ''OP_1'', resolve = Some ''OP_1'',
       reduce = Some \<lparr> reductionBytecode = [0x4F, 0x50, 0x5F, 0x31], reductionErrors = None,
                       reductionTrace = () \<rparr>,
       transformed = None \<rparr>"
  using compileScriptContents_stages [of demoCollaborators "''unknown''" "''unknown''"
      "''unknown''" demoData demoEnvironment _]
    compileScriptContents_stages [of demoCollaborators "''<invalid>''" "''<invalid>''"
      "''<invalid>''" demoData demoEnvironment _]
    compileScriptContents_stages [of demoCollaborators "''OP_1''" "''OP_1''"
      "''OP_1''" demoData demoEnvironment _]
  by (simp add: demoCollaborators_def)

section \<open>Properties of the dependency resolver\<close>

lemma parse_failure_names:
  assumes "result =
      \<lparr> success = False, bytecode = None, errorType = Some ''parse'',
        errors = Some [\<lparr> error = pre @ name @ post, errorRange = emptyRange \<rparr>],
        parse = None, resolve = None, reduce = None, transformed = None \<rparr>"
  shows "\<exists>message. result =
      \<lparr> success = False, bytecode = None, errorType = Some ''parse'',
        errors = Some [\<lparr> error = message, errorRange = emptyRange \<rparr>],
        parse = None, resolve = None, reduce = None, transformed = None \<rparr>
      \<and> sublist name message"
  using assms by (intro exI [of _ "pre @ name @ post"] conjI sublist_appendI)

text \<open>When the read of the script table at the identifier is \<^verbatim>\<open>undefined\<close>,
  \<open>compileScriptRaw\<close> returns the failure for an unknown identifier.\<close>

lemma compileScriptRaw_read_undefined:
  assumes "propertyRead (scripts environment) scriptId = Undefined"
  shows "compileScriptRaw c data environment scriptId =
           Inr \<lparr> success = False, bytecode = None, errorType = Some ''parse'',
                 errors = Some [\<lparr> error = ''No script with an ID of \"'' @
                                          valueToString scriptId @
                                          ''\" was provided in the compilation environment.'',
                                  errorRange = emptyRange \<rparr>],
                 parse = None, resolve = None, reduce = None, transformed = None \<rparr>"
  using assms by (simp add: compileScriptRaw_def)

lemma demo_scripts_read:
  "propertyRead (scripts demoEnvironment) (Str ''lock'') = Str ''OP_1''"
  "propertyRead (scripts demoEnvironment) (Str ''unlock'') = Str ''OP_2''"
  "propertyRead (scripts demoEnvironment) (Str ''both'') = Str ''OP_3''"
  "propertyRead (scripts demoEnvironment) (Str ''nonexistent'') = Undefined"
  "propertyRead (scripts demoEnvironment) (Str ''toString'')
     = Obj ''function toString() { [native code] }''"
  "propertyRead (scripts demoEnvironment) (Str ''constructor'')
     = Obj ''function Object() { [native code] }''"
  "sourceScriptIds demoEnvironment = None"
  by (simp_all add: propertyRead_def demoEnvironment_def objectLiteral_def objectPrototype_def)

text \<open>
  C4. The claim asks for the unknown-identifier failure whenever the script table has no
  entry for the identifier. The table of \<open>demoEnvironment\<close> is an object literal with entries
  for \<^verbatim>\<open>lock\<close>, \<^verbatim>\<open>unlock\<close> and \<^verbatim>\<open>both\<close> only; yet for the identifier \<^verbatim>\<open>toString\<close> the read at
  line 127 finds the function that every object literal inherits, the test against
  \<^verbatim>\<open>undefined\<close> fails, and that function is handed to the stage pipeline as the script: no
  failure result naming the identifier comes back, from \<open>compileScriptRaw\<close> or from
  \<open>compileScript\<close>.
\<close>

theorem inherited_name_is_not_unknown:
  "scripts demoEnvironment =
     objectLiteral [(''lock'', ''OP_1''), (''unlock'', ''OP_2''), (''both'', ''OP_3'')]
   \<and> map_of [(''lock'', ''OP_1''), (''unlock'', ''OP_2''), (''both'', ''OP_3'')] ''toString'' = None
   \<and> propertyRead (scripts demoEnvironment) (Str ''toString'')
       = Obj ''function toString() { [native code] }''
   \<and> compileScriptRaw demoCollaborators demoData demoEnvironment (Str ''toString'')
       = Inl (ScriptNotAString (Obj ''function toString() { [native code] }''))
   \<and> compileScript demoCollaborators ''toString'' demoData demoEnvironment
       = Inl (ScriptNotAString (Obj ''function toString() { [native code] }''))"
proof -
  have table: "scripts demoEnvironment =
     objectLiteral [(''lock'', ''OP_1''), (''unlock'', ''OP_2''), (''both'', ''OP_3'')]"
    and chain: "sourceScriptIds demoEnvironment = None"
    by (simp_all add: demoEnvironment_def)
  have read: "propertyRead (scripts demoEnvironment) (Str ''toString'')
       = Obj ''function toString() { [native code] }''"
    by (simp add: propertyRead_def table objectLiteral_def objectPrototype_def)
  have raw: "compileScriptRaw demoCollaborators demoData demoEnvironment (Str ''toString'')
       = Inl (ScriptNotAString (Obj ''function toString() { [native code] }''))"
    by (simp add: compileScriptRaw_def read chain callCompileScriptContents_def)
  have absent: "suppliedLocktime demoData = None"
    by (simp add: suppliedLocktime_def demoData_def)
  have "compileScript demoCollaborators ''toString'' demoData demoEnvironment
       = Inl (ScriptNotAString (Obj ''function toString() { [native code] }''))"
    by (simp add: compileScript_def absent compileScriptTransform_def raw)
  with table read raw show ?thesis by simp
qed




section \<open>Properties of the top-level entry\<close>

lemma threshold_rendering: "numberToString c (Finite 500000000) = ''500000000''"
  by (simp add: numberToString_def isSafeInteger_def integerToString_def natToString.simps)

lemma below_threshold_rendering: "numberToString c (Finite 499999999) = ''499999999''"
  by (simp add: numberToString_def isSafeInteger_def integerToString_def natToString.simps)

text \<open>
  C2. With a locktime supplied: a script declared \<^verbatim>\<open>height\<close> and a value of at least
  500,000,000 give, for every parser, resolver, reducer and compiler factory, the same
  \<^verbatim>\<open>parse\<close> failure with one error at the empty range whose message quotes the identifier and
  the value as the language prints it; a script declared \<^verbatim>\<open>timestamp\<close> and a value below
  500,000,000 likewise. With no locktime supplied, or no declared type for the script, the
  call is exactly the rest of \<open>compileScript\<close>. The value 500,000,000 itself is rejected for a
  \<^verbatim>\<open>height\<close> script, with \<^verbatim>\<open>500000000\<close> in the message, and let through for a \<^verbatim>\<open>timestamp\<close>
  script. A locktime that is not a number is let through for both.
\<close>

theorem locktime_type_check:
  "(suppliedLocktime data = Some given
      \<and> optionalRead (unlockingScriptTimeLockTypes environment) (Str scriptId) = Str ''height''
      \<and> numberAtLeast given 500000000 \<longrightarrow>
      compileScript c scriptId data environment =
        Inr \<lparr> success = False, bytecode = None, errorType = Some ''parse'',
          errors = Some [\<lparr> error = ''The script \"'' @ scriptId @
              ''\" requires a height-based locktime (less than 500,000,000), but this transaction uses a timestamp-based locktime (\"'' @
              numberToString c given @ ''\").'',
            errorRange = emptyRange \<rparr>],
          parse = None, resolve = None, reduce = None, transformed = None \<rparr>)
   \<and> (suppliedLocktime data = Some given
      \<and> optionalRead (unlockingScriptTimeLockTypes environment) (Str scriptId)
          = Str ''timestamp''
      \<and> numberBelow given 500000000 \<longrightarrow>
      compileScript c scriptId data environment =
        Inr \<lparr> success = False, bytecode = None, errorType = Some ''parse'',
          errors = Some [\<lparr> error = ''The script \"'' @ scriptId @
              ''\" requires a timestamp-based locktime (greater than or equal to 500,000,000), but this transaction uses a height-based locktime (\"'' @
              numberToString c given @ ''\").'',
            errorRange = emptyRange \<rparr>],
          parse = None, resolve = None, reduce = None, transformed = None \<rparr>)
   \<and> (suppliedLocktime data = None
      \<or> (optionalRead (unlockingScriptTimeLockTypes environment) (Str scriptId)
            \<noteq> Str ''height''
         \<and> optionalRead (unlockingScriptTimeLockTypes environment) (Str scriptId)
             \<noteq> Str ''timestamp'') \<longrightarrow>
      compileScript c scriptId data environment =
        compileScriptTransform c scriptId data environment)
   \<and> (suppliedLocktime data = Some (Finite 500000000)
      \<and> optionalRead (unlockingScriptTimeLockTypes environment) (Str scriptId) = Str ''height''
      \<longrightarrow>
      compileScript c scriptId data environment =
        Inr \<lparr> success = False, bytecode = None, errorType = Some ''parse'',
          errors = Some [\<lparr> error = ''The script \"'' @ scriptId @
              ''\" requires a height-based locktime (less than 500,000,000), but this transaction uses a timestamp-based locktime (\"500000000\").'',
            errorRange = emptyRange \<rparr>],
          parse = None, resolve = None, reduce = None, transformed = None \<rparr>)
   \<and> (suppliedLocktime data = Some (Finite 500000000)
      \<and> optionalRead (unlockingScriptTimeLockTypes environment) (Str scriptId)
          = Str ''timestamp''
      \<longrightarrow> compileScript c scriptId data environment =
            compileScriptTransform c scriptId data environment)
   \<and> (suppliedLocktime data = Some NaN
      \<longrightarrow> compileScript c scriptId data environment =
            compileScriptTransform c scriptId data environment)"
  by (simp add: compileScript_def Let_def numberAtLeast_def numberBelow_def
      threshold_rendering split: option.split)

theorem locktime_type_check_witness:
  "compileScript demoCollaborators ''unlock'' (demoDataWithLocktime (Finite 500000000))
       demoEnvironment =
     Inr \<lparr> success = False, bytecode = None, errorType = Some ''parse'',
       errors = Some [\<lparr> error = ''The script \"unlock\" requires a height-based locktime (less than 500,000,000), but this transaction uses a timestamp-based locktime (\"500000000\").'',
                        errorRange = emptyRange \<rparr>],
       parse = None, resolve = None, reduce = None, transformed = None \<rparr>
   \<and> compileScript demoCollaborators ''unlock'' (demoDataWithLocktime PositiveInfinity)
       demoEnvironment =
     Inr \<lparr> success = False, bytecode = None, errorType = Some ''parse'',
       errors = Some [\<lparr> error = ''The script \"unlock\" requires a height-based locktime (less than 500,000,000), but this transaction uses a timestamp-based locktime (\"Infinity\").'',
                        errorRange = emptyRange \<rparr>],
       parse = None, resolve = None, reduce = None, transformed = None \<rparr>
   \<and> compileScript demoCollaborators ''both'' (demoDataWithLocktime (Finite 499999999))
       demoEnvironment =
     Inr \<lparr> success = False, bytecode = None, errorType = Some ''parse'',
       errors = Some [\<lparr> error = ''The script \"both\" requires a timestamp-based locktime (greater than or equal to 500,000,000), but this transaction uses a height-based locktime (\"499999999\").'',
                        errorRange = emptyRange \<rparr>],
       parse = None, resolve = None, reduce = None, transformed = None \<rparr>
   \<and> compileScript demoCollaborators ''lock'' (demoDataWithLocktime (Finite 500000000))
       demoEnvironment =
       compileScriptTransform demoCollaborators ''lock''
         (demoDataWithLocktime (Finite 500000000)) demoEnvironment
   \<and> compileScript demoCollaborators ''unlock'' demoData demoEnvironment =
       compileScriptTransform demoCollaborators ''unlock'' demoData demoEnvironment
   \<and> compileScript demoCollaborators ''both'' (demoDataWithLocktime (Finite 500000000))
       demoEnvironment =
       compileScriptTransform demoCollaborators ''both''
         (demoDataWithLocktime (Finite 500000000)) demoEnvironment
   \<and> compileScript demoCollaborators ''unlock'' (demoDataWithLocktime NaN) demoEnvironment =
       compileScriptTransform demoCollaborators ''unlock'' (demoDataWithLocktime NaN)
         demoEnvironment"
proof -
  have given: "\<And>n. suppliedLocktime (demoDataWithLocktime n) = Some n"
    and absent: "suppliedLocktime demoData = None"
    by (simp_all add: suppliedLocktime_def demoDataWithLocktime_def demoData_def)
  have kinds:
    "optionalRead (unlockingScriptTimeLockTypes demoEnvironment) (Str ''unlock'')
       = Str ''height''"
    "optionalRead (unlockingScriptTimeLockTypes demoEnvironment) (Str ''both'')
       = Str ''timestamp''"
    "optionalRead (unlockingScriptTimeLockTypes demoEnvironment) (Str ''lock'') = Undefined"
    by (simp_all add: optionalRead_def propertyRead_def demoEnvironment_def
        objectLiteral_def objectPrototype_def)
  have compared:
    "numberAtLeast PositiveInfinity 500000000"
    "numberBelow (Finite 499999999) 500000000"
    by (simp_all add: numberAtLeast_def numberBelow_def)
  have printed: "numberToString demoCollaborators PositiveInfinity = ''Infinity''"
    by (simp add: numberToString_def)
  from locktime_type_check [of "demoDataWithLocktime (Finite 500000000)" "Finite 500000000"
      demoEnvironment "''unlock''" demoCollaborators]
    locktime_type_check [of "demoDataWithLocktime PositiveInfinity" PositiveInfinity
      demoEnvironment "''unlock''" demoCollaborators]
    locktime_type_check [of "demoDataWithLocktime (Finite 499999999)" "Finite 499999999"
      demoEnvironment "''both''" demoCollaborators]
    locktime_type_check [of "demoDataWithLocktime (Finite 500000000)" "Finite 500000000"
      demoEnvironment "''lock''" demoCollaborators]
    locktime_type_check [of demoData NaN demoEnvironment "''unlock''" demoCollaborators]
    locktime_type_check [of "demoDataWithLocktime (Finite 500000000)" "Finite 500000000"
      demoEnvironment "''both''" demoCollaborators]
    locktime_type_check [of "demoDataWithLocktime NaN" NaN demoEnvironment "''unlock''"
      demoCollaborators]
  show ?thesis
    by (simp add: given absent kinds compared printed below_threshold_rendering)
qed

text \<open>
  C9. When the locktime type check lets the call through, the identifier is classified as a
  \<^verbatim>\<open>p2sh\<close> locking script and its raw compilation succeeds with bytecode \<open>rawBytecode\<close>: the
  compiler made for the one script
  \<^verbatim>\<open>p2shLocking = OP_HASH160 <$(<lockingBytecode> OP_HASH160)> OP_EQUAL\<close>, the one
  \<^verbatim>\<open>AddressData\<close> variable \<^verbatim>\<open>lockingBytecode\<close> and the environment's virtual machine generates
  bytecode for \<^verbatim>\<open>p2shLocking\<close> with \<^verbatim>\<open>lockingBytecode\<close> bound to \<open>rawBytecode\<close>; if that
  succeeds, the result is the raw result with its bytecode replaced and
  \<^verbatim>\<open>transformed = p2sh-locking\<close>; if it fails, the result is that failure.
\<close>

theorem p2sh_locking_wrap:
  assumes accepted: "locktimeTypeAccepted scriptId data environment"
    and locking: "optionalRead (lockingScriptTypes environment) (Str scriptId) = Str ''p2sh''"
    and raw: "compileScriptRaw c data environment (Str scriptId) = Inr rawResult"
    and succeeded: "success rawResult"
  shows "\<exists>rawBytecode wrapped.
      bytecode rawResult = Some rawBytecode
      \<and> wrapped =
          generateBytecode
            (createCompilerCommonSynchronous c
               \<lparr> configScripts =
                   [''p2shLocking'' \<mapsto> ''OP_HASH160 <$(<lockingBytecode> OP_HASH160)> OP_EQUAL''],
                 configVariables =
                   [''lockingBytecode'' \<mapsto> \<lparr> variableType = ''AddressData'' \<rparr>],
                 configVm = vm environment \<rparr>)
            ''p2shLocking''
            \<lparr> dataBytecode = Some [''lockingBytecode'' \<mapsto> rawBytecode],
              operationData = None \<rparr>
      \<and> compileScript c scriptId data environment =
          Inr (if success wrapped
               then rawResult
                      \<lparr> bytecode := bytecode wrapped, transformed := Some ''p2sh-locking'' \<rparr>
               else wrapped)"
proof -
  from raw succeeded obtain rawBytecode where b: "bytecode rawResult = Some rawBytecode"
    using compileScriptRaw_success_bytecode by blast
  show ?thesis
    using succeeded locking
    by (simp add: compileScript_accepted [OF accepted] compileScriptTransform_def Let_def
        raw b compileScriptP2shLocking_def)
qed

lemma demo_raw_lock:
  "compileScriptRaw demoCollaborators demoData (demoEnvironment \<lparr> vm := machine \<rparr>)
     (Str ''lock'') =
     Inr \<lparr> success = True, bytecode = Some [0x4F, 0x50, 0x5F, 0x31],
       errorType = None, errors = None,
       parse = Some ''OP_1'', resolve = Some ''OP_1'',
       reduce = Some \<lparr> reductionBytecode = [0x4F, 0x50, 0x5F, 0x31], reductionErrors = None,
                       reductionTrace = () \<rparr>,
       transformed = None \<rparr>"
  by (simp add: compileScriptRaw_def demo_scripts_read
      callCompileScriptContents_def compileScriptContents_def demoCollaborators_def Let_def)

lemma demo_raw_unlock:
  "compileScriptRaw demoCollaborators demoData (demoEnvironment \<lparr> vm := machine \<rparr>)
     (Str ''unlock'') =
     Inr \<lparr> success = True, bytecode = Some [0x4F, 0x50, 0x5F, 0x32],
       errorType = None, errors = None,
       parse = Some ''OP_2'', resolve = Some ''OP_2'',
       reduce = Some \<lparr> reductionBytecode = [0x4F, 0x50, 0x5F, 0x32], reductionErrors = None,
                       reductionTrace = () \<rparr>,
       transformed = None \<rparr>"
  by (simp add: compileScriptRaw_def demo_scripts_read
      callCompileScriptContents_def compileScriptContents_def demoCollaborators_def Let_def)

lemma demo_raw_both:
  "compileScriptRaw demoCollaborators demoData (demoEnvironment \<lparr> vm := machine \<rparr>)
     (Str ''both'') =
     Inr \<lparr> success = True, bytecode = Some [0x4F, 0x50, 0x5F, 0x33],
       errorType = None, errors = None,
       parse = Some ''OP_3'', resolve = Some ''OP_3'',
       reduce = Some \<lparr> reductionBytecode = [0x4F, 0x50, 0x5F, 0x33], reductionErrors = None,
                       reductionTrace = () \<rparr>,
       transformed = None \<rparr>"
  by (simp add: compileScriptRaw_def demo_scripts_read
      callCompileScriptContents_def compileScriptContents_def demoCollaborators_def Let_def)

lemma demo_classes_read:
  "optionalRead (lockingScriptTypes demoEnvironment) (Str ''lock'') = Str ''p2sh''"
  "optionalRead (lockingScriptTypes demoEnvironment) (Str ''both'') = Str ''p2sh''"
  "optionalRead (lockingScriptTypes demoEnvironment) (Str ''unlock'') = Undefined"
  "optionalRead (unlockingScripts demoEnvironment) (Str ''both'') = Str ''lock''"
  "optionalRead (unlockingScripts demoEnvironment) (Str ''unlock'') = Str ''lock''"
  by (simp_all add: optionalRead_def propertyRead_def demoEnvironment_def objectLiteral_def
      objectPrototype_def)

lemma demo_classes:
  "optionalRead (lockingScriptTypes (demoEnvironment \<lparr> vm := machine \<rparr>)) (Str ''lock'')
     = Str ''p2sh''"
  "optionalRead (lockingScriptTypes (demoEnvironment \<lparr> vm := machine \<rparr>)) (Str ''both'')
     = Str ''p2sh''"
  "optionalRead (lockingScriptTypes (demoEnvironment \<lparr> vm := machine \<rparr>)) (Str ''unlock'')
     = Undefined"
  "optionalRead (unlockingScripts (demoEnvironment \<lparr> vm := machine \<rparr>)) (Str ''both'')
     = Str ''lock''"
  "optionalRead (unlockingScripts (demoEnvironment \<lparr> vm := machine \<rparr>)) (Str ''unlock'')
     = Str ''lock''"
  by (simp_all add: demo_classes_read)

lemma demo_factory:
  "generateBytecode (createCompilerCommonSynchronous demoCollaborators config) =
   demoGenerateBytecode config"
  by (simp add: demoCollaborators_def)

lemma demoEnvironment_vm: "demoEnvironment \<lparr> vm := Some () \<rparr> = demoEnvironment"
  by (simp add: demoEnvironment_def)

lemma demoData_accepted: "locktimeTypeAccepted scriptId demoData environment"
  by (simp add: locktimeTypeAccepted_def suppliedLocktime_def demoData_def)

theorem p2sh_locking_wrap_witness:
  "compileScript demoCollaborators ''lock'' demoData demoEnvironment =
     Inr \<lparr> success = True, bytecode = Some [0xA9, 0x4F, 0x50, 0x5F, 0x31, 0x87],
       errorType = None, errors = None,
       parse = Some ''OP_1'', resolve = Some ''OP_1'',
       reduce = Some \<lparr> reductionBytecode = [0x4F, 0x50, 0x5F, 0x31], reductionErrors = None,
                       reductionTrace = () \<rparr>,
       transformed = Some ''p2sh-locking'' \<rparr>
   \<and> compileScript demoCollaborators ''lock'' demoData (demoEnvironment \<lparr> vm := None \<rparr>) =
     Inr \<lparr> success = False, bytecode = None, errorType = Some ''reduce'',
       errors = Some [demoError ''A virtual machine is required.''],
       parse = None, resolve = None, reduce = None, transformed = None \<rparr>"
proof -
  from p2sh_locking_wrap [OF demoData_accepted demo_classes(1) [of "Some ()"]
      demo_raw_lock [of "Some ()"]]
    p2sh_locking_wrap [OF demoData_accepted demo_classes(1) [of None] demo_raw_lock [of None]]
  have "compileScript demoCollaborators ''lock'' demoData (demoEnvironment \<lparr> vm := Some () \<rparr>) =
     Inr \<lparr> success = True, bytecode = Some [0xA9, 0x4F, 0x50, 0x5F, 0x31, 0x87],
       errorType = None, errors = None,
       parse = Some ''OP_1'', resolve = Some ''OP_1'',
       reduce = Some \<lparr> reductionBytecode = [0x4F, 0x50, 0x5F, 0x31], reductionErrors = None,
                       reductionTrace = () \<rparr>,
       transformed = Some ''p2sh-locking'' \<rparr>
   \<and> compileScript demoCollaborators ''lock'' demoData (demoEnvironment \<lparr> vm := None \<rparr>) =
     Inr \<lparr> success = False, bytecode = None, errorType = Some ''reduce'',
       errors = Some [demoError ''A virtual machine is required.''],
       parse = None, resolve = None, reduce = None, transformed = None \<rparr>"
    by (simp add: demo_factory demoGenerateBytecode_def)
  then show ?thesis by (simp add: demoEnvironment_vm)
qed

lemma callCompileScriptContents_factory:
  "callCompileScriptContents (c \<lparr> createCompilerCommonSynchronous := factory \<rparr>) data
     environment script
   = callCompileScriptContents c data environment script"
  by (simp add: callCompileScriptContents_def compileScriptContents_def Let_def
      split: JsValue.split ParseResult.split option.split)

lemma compileScriptRaw_factory:
  "compileScriptRaw (c \<lparr> createCompilerCommonSynchronous := factory \<rparr>) data environment scriptId
   = compileScriptRaw c data environment scriptId"
  by (simp add: compileScriptRaw_def Let_def callCompileScriptContents_factory
      split: option.split)

lemma numberToString_factory:
  "numberToString (c \<lparr> createCompilerCommonSynchronous := factory \<rparr>) n = numberToString c n"
  by (simp add: numberToString_def split: JsNumber.split)

text \<open>
  C10. When the identifier is classified both as a \<^verbatim>\<open>p2sh\<close> locking script and as the
  unlocking script of a \<^verbatim>\<open>p2sh\<close> locking script: once the locktime type check has let the call
  through and the raw compilation has succeeded, the result is the outcome of the locking wrap
  (the raw result with replaced bytecode and marked \<^verbatim>\<open>p2sh-locking\<close>, or the failure of the
  wrap); in every call, a successful result is marked \<^verbatim>\<open>p2sh-locking\<close> and nothing else; and
  in every call, the result stays the same when the compiler used for the unlocking assembly
  is replaced by any other, so that branch plays no part.
\<close>

theorem locking_classification_precedence:
  assumes locking: "optionalRead (lockingScriptTypes environment) (Str scriptId) = Str ''p2sh''"
    and unlocks: "optionalRead (unlockingScripts environment) (Str scriptId) = Str lockingId"
    and paired: "optionalRead (lockingScriptTypes environment) (Str lockingId) = Str ''p2sh''"
  shows "(\<forall>rawResult. locktimeTypeAccepted scriptId data environment
          \<and> compileScriptRaw c data environment (Str scriptId) = Inr rawResult
          \<and> success rawResult \<longrightarrow>
          (\<exists>rawBytecode wrapped.
            bytecode rawResult = Some rawBytecode
            \<and> wrapped = compileScriptP2shLocking c rawBytecode (vm environment)
            \<and> compileScript c scriptId data environment =
                Inr (if success wrapped
                     then rawResult
                            \<lparr> bytecode := bytecode wrapped,
                              transformed := Some ''p2sh-locking'' \<rparr>
                     else wrapped)))
       \<and> (\<forall>result. compileScript c scriptId data environment = Inr result
            \<and> success result \<longrightarrow> transformed result = Some ''p2sh-locking'')
       \<and> compileScript
            (c \<lparr> createCompilerCommonSynchronous :=
                   (\<lambda>config. if configScripts config ''p2shUnlocking'' = None
                              then createCompilerCommonSynchronous c config
                              else other config) \<rparr>)
            scriptId data environment
          = compileScript c scriptId data environment"
proof (intro conjI allI impI)
  fix rawResult
  assume reached: "locktimeTypeAccepted scriptId data environment
      \<and> compileScriptRaw c data environment (Str scriptId) = Inr rawResult
      \<and> success rawResult"
  then obtain rawBytecode where b: "bytecode rawResult = Some rawBytecode"
    using compileScriptRaw_success_bytecode by blast
  have "compileScript c scriptId data environment =
      Inr (if success (compileScriptP2shLocking c rawBytecode (vm environment))
           then rawResult
              \<lparr> bytecode := bytecode (compileScriptP2shLocking c rawBytecode (vm environment)),
                transformed := Some ''p2sh-locking'' \<rparr>
           else compileScriptP2shLocking c rawBytecode (vm environment))"
    using reached locking
    by (simp add: compileScript_accepted compileScriptTransform_def Let_def b)
  with b show "\<exists>rawBytecode wrapped.
            bytecode rawResult = Some rawBytecode
            \<and> wrapped = compileScriptP2shLocking c rawBytecode (vm environment)
            \<and> compileScript c scriptId data environment =
                Inr (if success wrapped
                     then rawResult
                            \<lparr> bytecode := bytecode wrapped,
                              transformed := Some ''p2sh-locking'' \<rparr>
                     else wrapped)"
    by blast
next
  fix result
  have "\<forall>r. compileScriptTransform c scriptId data environment = Inr r \<and> success r \<longrightarrow>
      transformed r = Some ''p2sh-locking''"
    using locking
    by (auto simp: compileScriptTransform_def Let_def split: sum.splits if_splits)
  then have "\<forall>r. compileScript c scriptId data environment = Inr r \<and> success r \<longrightarrow>
      transformed r = Some ''p2sh-locking''"
    by (auto simp: compileScript_def Let_def split: option.splits if_splits)
  moreover assume "compileScript c scriptId data environment = Inr result \<and> success result"
  ultimately show "transformed result = Some ''p2sh-locking''"
    by blast
next
  let ?c' = "c \<lparr> createCompilerCommonSynchronous :=
                   (\<lambda>config. if configScripts config ''p2shUnlocking'' = None
                              then createCompilerCommonSynchronous c config
                              else other config) \<rparr>"
  have wrap: "\<And>b m. compileScriptP2shLocking ?c' b m = compileScriptP2shLocking c b m"
    by (simp add: compileScriptP2shLocking_def)
  have "compileScriptTransform ?c' scriptId data environment
      = compileScriptTransform c scriptId data environment"
    using locking
    by (simp add: compileScriptTransform_def Let_def compileScriptRaw_factory wrap
        split: sum.split)
  then show "compileScript ?c' scriptId data environment
      = compileScript c scriptId data environment"
    by (simp add: compileScript_def Let_def numberToString_factory split: option.split)
qed

theorem locking_classification_precedence_witness:
  "compileScript demoCollaborators ''both'' demoData demoEnvironment =
     Inr \<lparr> success = True, bytecode = Some [0xA9, 0x4F, 0x50, 0x5F, 0x33, 0x87],
       errorType = None, errors = None,
       parse = Some ''OP_3'', resolve = Some ''OP_3'',
       reduce = Some \<lparr> reductionBytecode = [0x4F, 0x50, 0x5F, 0x33], reductionErrors = None,
                       reductionTrace = () \<rparr>,
       transformed = Some ''p2sh-locking'' \<rparr>"
proof -
  from locking_classification_precedence [OF demo_classes(2) [of "Some ()"]
      demo_classes(4) [of "Some ()"] demo_classes(1) [of "Some ()"],
      where c = demoCollaborators and data = demoData, THEN conjunct1]
    demo_raw_both [of "Some ()"]
  have "compileScript demoCollaborators ''both'' demoData (demoEnvironment \<lparr> vm := Some () \<rparr>) =
     Inr \<lparr> success = True, bytecode = Some [0xA9, 0x4F, 0x50, 0x5F, 0x33, 0x87],
       errorType = None, errors = None,
       parse = Some ''OP_3'', resolve = Some ''OP_3'',
       reduce = Some \<lparr> reductionBytecode = [0x4F, 0x50, 0x5F, 0x33], reductionErrors = None,
                       reductionTrace = () \<rparr>,
       transformed = Some ''p2sh-locking'' \<rparr>"
    by (simp add: demoData_accepted compileScriptP2shLocking_def demo_factory
        demoGenerateBytecode_def)
  then show ?thesis by (simp add: demoEnvironment_vm)
qed

text \<open>The unlocking assembly, as the source has it: when the recompilation of the paired
  locking script fails, its failure is the result; when the sub-compilation of the assembled
  script fails, the result is again the recompiled locking script's result.\<close>

lemma p2sh_unlocking_assembly:
  assumes accepted: "locktimeTypeAccepted scriptId data environment"
    and raw: "compileScriptRaw c data environment (Str scriptId) = Inr rawResult"
    and succeeded: "success rawResult"
    and notLocking:
      "optionalRead (lockingScriptTypes environment) (Str scriptId) \<noteq> Str ''p2sh''"
    and unlocks: "optionalRead (unlockingScripts environment) (Str scriptId) = Str lockingId"
    and paired: "optionalRead (lockingScriptTypes environment) (Str lockingId) = Str ''p2sh''"
  shows "compileScript c scriptId data environment =
      (case compileScriptRaw c data environment (Str lockingId) of
         Inl nonResult \<Rightarrow> Inl nonResult
       | Inr lockingBytecodeResult \<Rightarrow>
           (let transformedResult =
                  compileScriptP2shUnlocking c (the (bytecode lockingBytecodeResult))
                    (the (bytecode rawResult))
            in if \<not> success lockingBytecodeResult then Inr lockingBytecodeResult
               else if \<not> success transformedResult then Inr lockingBytecodeResult
               else Inr (rawResult \<lparr> bytecode := bytecode transformedResult,
                                     transformed := Some ''p2sh-unlocking'' \<rparr>)))"
  using succeeded notLocking unlocks paired
  by (simp add: compileScript_accepted [OF accepted] compileScriptTransform_def Let_def raw
      split: sum.split)

text \<open>
  C1. The claim asks that a failure of the wrapping sub-compilation of the unlocking assembly
  be the result of \<open>compileScript\<close>. On the environment \<open>demoEnvironment\<close>, the scripts
  \<^verbatim>\<open>unlock\<close> and \<^verbatim>\<open>lock\<close> both compile, the wrapping sub-compilation fails, and the result
  of \<open>compileScript\<close> for \<^verbatim>\<open>unlock\<close> is the successful raw result of \<^verbatim>\<open>lock\<close>: a success
  carrying the locking script's bytecode, not the wrapping failure.
\<close>

theorem p2sh_unlocking_wrap_failure_shadowed:
  "compileScriptRaw demoCollaborators demoData demoEnvironment (Str ''unlock'') =
       Inr \<lparr> success = True, bytecode = Some [0x4F, 0x50, 0x5F, 0x32],
         errorType = None, errors = None,
         parse = Some ''OP_2'', resolve = Some ''OP_2'',
         reduce = Some \<lparr> reductionBytecode = [0x4F, 0x50, 0x5F, 0x32], reductionErrors = None,
                         reductionTrace = () \<rparr>,
         transformed = None \<rparr>
   \<and> compileScriptRaw demoCollaborators demoData demoEnvironment (Str ''lock'') =
       Inr \<lparr> success = True, bytecode = Some [0x4F, 0x50, 0x5F, 0x31],
         errorType = None, errors = None,
         parse = Some ''OP_1'', resolve = Some ''OP_1'',
         reduce = Some \<lparr> reductionBytecode = [0x4F, 0x50, 0x5F, 0x31], reductionErrors = None,
                         reductionTrace = () \<rparr>,
         transformed = None \<rparr>
   \<and> compileScriptP2shUnlocking demoCollaborators [0x4F, 0x50, 0x5F, 0x31]
         [0x4F, 0x50, 0x5F, 0x32] =
       \<lparr> success = False, bytecode = None, errorType = Some ''reduce'',
         errors = Some [demoError ''A virtual machine is required.''],
         parse = None, resolve = None, reduce = None, transformed = None \<rparr>
   \<and> compileScript demoCollaborators ''unlock'' demoData demoEnvironment =
       Inr \<lparr> success = True, bytecode = Some [0x4F, 0x50, 0x5F, 0x31],
         errorType = None, errors = None,
         parse = Some ''OP_1'', resolve = Some ''OP_1'',
         reduce = Some \<lparr> reductionBytecode = [0x4F, 0x50, 0x5F, 0x31], reductionErrors = None,
                         reductionTrace = () \<rparr>,
         transformed = None \<rparr>"
proof -
  have notLocking:
    "optionalRead (lockingScriptTypes (demoEnvironment \<lparr> vm := Some () \<rparr>)) (Str ''unlock'')
       \<noteq> Str ''p2sh''"
    by (simp add: demo_classes_read)
  have wrap: "compileScriptP2shUnlocking demoCollaborators [0x4F, 0x50, 0x5F, 0x31]
         [0x4F, 0x50, 0x5F, 0x32] =
       \<lparr> success = False, bytecode = None, errorType = Some ''reduce'',
         errors = Some [demoError ''A virtual machine is required.''],
         parse = None, resolve = None, reduce = None, transformed = None \<rparr>"
    by (simp add: compileScriptP2shUnlocking_def demo_factory demoGenerateBytecode_def)
  have "compileScript demoCollaborators ''unlock'' demoData (demoEnvironment \<lparr> vm := Some () \<rparr>) =
       Inr \<lparr> success = True, bytecode = Some [0x4F, 0x50, 0x5F, 0x31],
         errorType = None, errors = None,
         parse = Some ''OP_1'', resolve = Some ''OP_1'',
         reduce = Some \<lparr> reductionBytecode = [0x4F, 0x50, 0x5F, 0x31], reductionErrors = None,
                         reductionTrace = () \<rparr>,
         transformed = None \<rparr>"
    using p2sh_unlocking_assembly [OF demoData_accepted demo_raw_unlock [of "Some ()"] _
        notLocking demo_classes(5) [of "Some ()"] demo_classes(1) [of "Some ()"]]
    by (simp add: demo_raw_lock wrap)
  with wrap demo_raw_lock [of "Some ()"] demo_raw_unlock [of "Some ()"]
  show ?thesis by (simp add: demoEnvironment_vm)
qed

section \<open>The shape invariant of compilation results\<close>

lemma failure_invariant:
  "resultInvariant \<lparr> success = False, bytecode = None, errorType = kind,
       errors = Some (e # es), parse = p, resolve = r, reduce = d, transformed = t \<rparr>"
  by (simp add: resultInvariant_def)

lemma compileScriptContents_invariant:
  assumes "\<forall>resolved machine state.
      reductionErrors (reduceScript c resolved machine state) \<noteq> Some []"
  shows "resultInvariant (compileScriptContents c data environment script)"
  using assms
  by (auto simp: resultInvariant_def compileScriptContents_def Let_def
      split: ParseResult.split option.split)

lemma compileScriptRaw_invariant:
  assumes "\<forall>resolved machine state.
      reductionErrors (reduceScript c resolved machine state) \<noteq> Some []"
    and "compileScriptRaw c data environment scriptId = Inr result"
  shows "resultInvariant result"
proof -
  have contents: "\<And>e s. resultInvariant (compileScriptContents c data e s)"
    using assms(1) by (rule compileScriptContents_invariant)
  have call: "\<And>e v r. callCompileScriptContents c data e v = Inr r \<Longrightarrow> resultInvariant r"
    using contents by (auto simp: callCompileScriptContents_def split: JsValue.splits)
  show ?thesis
    using assms(2) call
    by (auto simp: compileScriptRaw_def Let_def failure_invariant
        split: option.splits if_splits)
qed

lemma compileScriptTransform_invariant:
  assumes reducer: "\<forall>resolved machine state.
        reductionErrors (reduceScript c resolved machine state) \<noteq> Some []"
    and compilers: "\<forall>config name input.
        resultInvariant (generateBytecode (createCompilerCommonSynchronous c config) name input)"
    and returned: "compileScriptTransform c scriptId data environment = Inr result"
  shows "resultInvariant result"
proof -
  have raw: "\<And>i r. compileScriptRaw c data environment i = Inr r \<Longrightarrow> resultInvariant r"
    using reducer by (rule compileScriptRaw_invariant)
  have locking: "\<And>b m. resultInvariant (compileScriptP2shLocking c b m)"
    using compilers by (simp add: compileScriptP2shLocking_def)
  have unlocking: "\<And>b u. resultInvariant (compileScriptP2shUnlocking c b u)"
    using compilers by (simp add: compileScriptP2shUnlocking_def)
  have markedLocking: "resultInvariant
        (r \<lparr> bytecode := bytecode (compileScriptP2shLocking c b m), transformed := t \<rparr>)"
    if "success r" "success (compileScriptP2shLocking c b m)" for r b m t
    using that locking [of b m] by (simp add: resultInvariant_def)
  have markedUnlocking: "resultInvariant
        (r \<lparr> bytecode := bytecode (compileScriptP2shUnlocking c b u), transformed := t \<rparr>)"
    if "success r" "success (compileScriptP2shUnlocking c b u)" for r b u t
    using that unlocking [of b u] by (simp add: resultInvariant_def)
  show ?thesis
    using returned raw
    by (auto simp: compileScriptTransform_def Let_def locking unlocking markedLocking
        markedUnlocking split: sum.splits if_splits)
qed

text \<open>
  C5. Provided the reducer never reports an empty list of errors and the compilers made by
  the compiler factory return results that satisfy the invariant, every result of
  \<open>compileScriptContents\<close>, \<open>compileScriptRaw\<close> and \<open>compileScript\<close> satisfies it: a failure
  has no bytecode property and a non-empty list of errors, a success has a bytecode
  property.
\<close>

theorem result_invariant:
  assumes reducer: "\<forall>resolved machine state.
        reductionErrors (reduceScript c resolved machine state) \<noteq> Some []"
    and compilers: "\<forall>config name input.
        resultInvariant (generateBytecode (createCompilerCommonSynchronous c config) name input)"
  shows "resultInvariant (compileScriptContents c data environment script)
       \<and> (\<forall>result. compileScriptRaw c data environment identifier = Inr result \<longrightarrow>
            resultInvariant result)
       \<and> (\<forall>result. compileScript c scriptId data environment = Inr result \<longrightarrow>
            resultInvariant result)"
proof (intro conjI allI impI)
  show "resultInvariant (compileScriptContents c data environment script)"
    using reducer by (rule compileScriptContents_invariant)
next
  fix result
  assume "compileScriptRaw c data environment identifier = Inr result"
  with reducer show "resultInvariant result" by (rule compileScriptRaw_invariant)
next
  fix result
  assume returned: "compileScript c scriptId data environment = Inr result"
  have "\<And>r. compileScriptTransform c scriptId data environment = Inr r \<Longrightarrow> resultInvariant r"
    using reducer compilers by (rule compileScriptTransform_invariant)
  with returned show "resultInvariant result"
    by (auto simp: compileScript_def Let_def failure_invariant split: option.splits if_splits)
qed

theorem result_invariant_witness:
  "(\<forall>resolved machine state.
      reductionErrors (reduceScript demoCollaborators resolved machine state) \<noteq> Some [])
   \<and> (\<forall>config name input.
      resultInvariant
        (generateBytecode (createCompilerCommonSynchronous demoCollaborators config) name input))
   \<and> resultInvariant (compileScriptContents demoCollaborators demoData demoEnvironment ''<invalid>'')
   \<and> resultInvariant
       \<lparr> success = True, bytecode = Some [0x4F, 0x50, 0x5F, 0x31],
         errorType = None, errors = None,
         parse = Some ''OP_1'', resolve = Some ''OP_1'',
         reduce = Some \<lparr> reductionBytecode = [0x4F, 0x50, 0x5F, 0x31], reductionErrors = None,
                         reductionTrace = () \<rparr>,
         transformed = None \<rparr>
   \<and> resultInvariant
       \<lparr> success = True, bytecode = Some [0xA9, 0x4F, 0x50, 0x5F, 0x31, 0x87],
         errorType = None, errors = None,
         parse = Some ''OP_1'', resolve = Some ''OP_1'',
         reduce = Some \<lparr> reductionBytecode = [0x4F, 0x50, 0x5F, 0x31], reductionErrors = None,
                         reductionTrace = () \<rparr>,
         transformed = Some ''p2sh-locking'' \<rparr>"
proof -
  have reducer: "\<forall>resolved machine state.
      reductionErrors (reduceScript demoCollaborators resolved machine state) \<noteq> Some []"
    by (simp add: demoCollaborators_def)
  have compilers: "\<forall>config name input.
      resultInvariant
        (generateBytecode (createCompilerCommonSynchronous demoCollaborators config) name input)"
    by (simp add: demo_factory demoGenerateBytecode_def resultInvariant_def split: option.split)
  have locked: "compileScript demoCollaborators ''lock'' demoData demoEnvironment =
     Inr \<lparr> success = True, bytecode = Some [0xA9, 0x4F, 0x50, 0x5F, 0x31, 0x87],
       errorType = None, errors = None,
       parse = Some ''OP_1'', resolve = Some ''OP_1'',
       reduce = Some \<lparr> reductionBytecode = [0x4F, 0x50, 0x5F, 0x31], reductionErrors = None,
                       reductionTrace = () \<rparr>,
       transformed = Some ''p2sh-locking'' \<rparr>"
    using demo_raw_lock [of "Some ()"]
    by (simp add: compileScript_accepted [OF demoData_accepted] compileScriptTransform_def
        Let_def demoEnvironment_vm demo_classes_read compileScriptP2shLocking_def demo_factory
        demoGenerateBytecode_def demoEnvironment_def [THEN arg_cong [of _ _ vm]])
  note inv = result_invariant [OF reducer compilers, of demoData demoEnvironment]
  from inv [of "''<invalid>''" "Str ''lock''" "''lock''"]
    demo_raw_lock [of "Some ()"] locked reducer compilers
  show ?thesis by (simp add: demoEnvironment_vm)
qed

end
